theory Spec2Isabelle
  imports Main "HOL-Library.AList"
begin

section \<open>Python values used by the recorder\<close>

text \<open>
  A Python \<open>str\<close> is a sequence of Unicode code points, so it is modelled as a list of
  natural numbers (the code points) and not as a list of 8-bit characters: stream titles
  are arbitrary Unicode text. \<open>ascii\<close> turns an ASCII literal of the source into such a
  list.
\<close>

type_synonym pystr = "nat list"

definition ascii :: "string \<Rightarrow> pystr" where
  "ascii s = map of_char s"

text \<open>
  \<open>str.isalnum()\<close> on one character. On ASCII it holds for \<open>0-9\<close>, \<open>A-Z\<close> and \<open>a-z\<close>.
  Beyond ASCII the answer comes from the Unicode character database, which is not part of
  the repository: it is the parameter \<open>U\<close>.
\<close>

definition ascii_alnum :: "nat \<Rightarrow> bool" where
  "ascii_alnum c = ((48 \<le> c \<and> c \<le> 57) \<or> (65 \<le> c \<and> c \<le> 90) \<or> (97 \<le> c \<and> c \<le> 122))"

definition isalnum :: "(nat \<Rightarrow> bool) \<Rightarrow> nat \<Rightarrow> bool" where
  "isalnum U c = (if c < 128 then ascii_alnum c else U c)"

text \<open>
  The character database restricted to Latin-1 (code points 128 to 255), as CPython answers
  \<open>chr(c).isalnum()\<close> there: the letters, the superscript digits and the vulgar fractions.
  Above 255 this table accepts nothing; it is used for concrete evaluation only.
\<close>

definition latin1_alnum :: "nat \<Rightarrow> bool" where
  "latin1_alnum c =
     (c \<in> {170, 178, 179, 181, 185, 186, 188, 189, 190} \<or>
      (192 \<le> c \<and> c \<le> 255 \<and> c \<noteq> 215 \<and> c \<noteq> 247))"

text \<open>
  Line 118 of \<open>twitchrecorder.py\<close>:
  \<^verbatim>\<open>filename = "".join(x for x in filename if x.isalnum() or x in [" ", "-", "_", "."])\<close>
\<close>

definition kept_punctuation :: "nat list" where
  "kept_punctuation = [32, 45, 95, 46]"

definition clean_filename :: "(nat \<Rightarrow> bool) \<Rightarrow> pystr \<Rightarrow> pystr" where
  "clean_filename U filename = filter (\<lambda>x. isalnum U x \<or> x \<in> set kept_punctuation) filename"

text \<open>The character class \<open>[A-Za-z0-9 _.-]\<close> of the specification.\<close>

definition safe_class :: "nat \<Rightarrow> bool" where
  "safe_class c = (ascii_alnum c \<or> c = 32 \<or> c = 95 \<or> c = 46 \<or> c = 45)"

text \<open>
  The exceptions the recorder can meet. \<open>RequestException\<close> stands for the whole class
  \<open>requests.exceptions.RequestException\<close>; the file-system errors and \<open>shutil.Error\<close>
  are subclasses of \<open>OSError\<close>, which Python 3 also calls \<open>IOError\<close>.
\<close>

datatype exn =
    KeyError | TypeError | AttributeError | RequestException
  | FileNotFoundError | FileExistsError | NotADirectoryError | IsADirectoryError
  | PermissionError | ShutilError | OSError

definition is_OSError :: "exn \<Rightarrow> bool" where
  "is_OSError e = (e \<in> {FileNotFoundError, FileExistsError, NotADirectoryError,
                         IsADirectoryError, PermissionError, ShutilError, OSError})"

text \<open>
  What \<open>r.json()\<close> can return. \<open>PyNone\<close> is Python's \<open>None\<close> (the JSON \<open>null\<close>); a dict is
  an association list in insertion order, read by \<open>map_of\<close>. Floating-point numbers are
  left out.
\<close>

datatype pyobject =
    PyNone | PyBool bool | PyInt int | PyStr pystr
  | PyList "pyobject list" | PyDict "(pystr \<times> pyobject) list"

text \<open>Truth value testing (\<open>not x\<close>, \<open>if x\<close>).\<close>

fun truthy :: "pyobject \<Rightarrow> bool" where
  "truthy PyNone = False"
| "truthy (PyBool b) = b"
| "truthy (PyInt n) = (n \<noteq> 0)"
| "truthy (PyStr s) = (s \<noteq> [])"
| "truthy (PyList xs) = (xs \<noteq> [])"
| "truthy (PyDict kvs) = (kvs \<noteq> [])"

text \<open>\<open>x[key]\<close> with a string key: only a dict accepts it.\<close>

fun getitem :: "pyobject \<Rightarrow> pystr \<Rightarrow> exn + pyobject" where
  "getitem (PyDict kvs) k = (case map_of kvs k of None \<Rightarrow> Inl KeyError | Some v \<Rightarrow> Inr v)"
| "getitem _ k = Inl TypeError"

text \<open>\<open>next(iter(x), None)\<close>: the first element, \<open>None\<close> when there is none.\<close>

fun first_or_none :: "pyobject \<Rightarrow> exn + pyobject" where
  "first_or_none (PyList xs) = Inr (case xs of [] \<Rightarrow> PyNone | x # _ \<Rightarrow> x)"
| "first_or_none (PyDict kvs) = Inr (case kvs of [] \<Rightarrow> PyNone | kv # _ \<Rightarrow> PyStr (fst kv))"
| "first_or_none (PyStr s) = Inr (case s of [] \<Rightarrow> PyNone | c # _ \<Rightarrow> PyStr [c])"
| "first_or_none _ = Inl TypeError"

text \<open>\<open>x.get(key)\<close>: a method of dicts only.\<close>

fun dict_get :: "pyobject \<Rightarrow> pystr \<Rightarrow> exn + pyobject" where
  "dict_get (PyDict kvs) k = Inr (case map_of kvs k of None \<Rightarrow> PyNone | Some v \<Rightarrow> v)"
| "dict_get _ k = Inl AttributeError"

text \<open>\<open>prefix + x + suffix\<close> for strings \<open>prefix\<close> and \<open>suffix\<close>: \<open>x\<close> has to be a string.\<close>

fun concat_str :: "pystr \<Rightarrow> pyobject \<Rightarrow> pystr \<Rightarrow> exn + pystr" where
  "concat_str pre (PyStr s) suf = Inr (pre @ s @ suf)"
| "concat_str pre _ suf = Inl TypeError"

section \<open>The file system and the library calls on it\<close>

text \<open>
  A path is its list of components; \<open>os.path.join(d, f)\<close> is \<open>d @ [f]\<close> for a component
  \<open>f\<close>. The empty path is the directory the relative paths start from. A disk is an
  association list from paths to nodes, read by \<open>map_of\<close>, and the set of directories in
  which no entry can be created or removed.
\<close>

type_synonym path = "pystr list"

datatype node = File "nat list" | Dir

record filesys =
  nodes :: "(path \<times> node) list"
  readonly :: "path set"

definition node_at :: "filesys \<Rightarrow> path \<Rightarrow> node option" where
  "node_at d p = (if p = [] then Some Dir else map_of (nodes d) p)"

definition os_path_exists :: "filesys \<Rightarrow> path \<Rightarrow> bool" where
  "os_path_exists d p = (node_at d p \<noteq> None)"

definition os_path_isdir :: "filesys \<Rightarrow> path \<Rightarrow> bool" where
  "os_path_isdir d p = (node_at d p = Some Dir)"

definition os_path_isfile :: "filesys \<Rightarrow> path \<Rightarrow> bool" where
  "os_path_isfile d p = (case node_at d p of Some (File b) \<Rightarrow> True | _ \<Rightarrow> False)"

definition basename :: "path \<Rightarrow> pystr" where
  "basename p = (if p = [] then [] else last p)"

text \<open>
  \<open>os.path.join(p, s)\<close> for a string \<open>s\<close>, as the location it names. After \<open>posixpath.join\<close>,
  a string that starts with a slash discards \<open>p\<close>: an absolute path starts with the empty
  component, as \<open>'/x'.split('/')\<close> does. Otherwise the pieces of \<open>s\<close> between slashes are
  entered one after the other from \<open>p\<close>: an empty piece and \<open>.\<close> stay where they are, so that
  joining the empty string names \<open>p\<close> itself, and \<open>..\<close> goes to the parent (links are not
  modelled). A name is a piece that is entered as one more component.
\<close>

definition is_name :: "pystr \<Rightarrow> bool" where
  "is_name f = (f \<noteq> [] \<and> 47 \<notin> set f \<and> f \<noteq> [46] \<and> f \<noteq> [46, 46])"

fun split_slash :: "pystr \<Rightarrow> pystr list" where
  "split_slash [] = [[]]"
| "split_slash (c # cs) =
     (if c = 47 then [] # split_slash cs
      else (case split_slash cs of [] \<Rightarrow> [[c]] | x # xs \<Rightarrow> (c # x) # xs))"

definition enter :: "path \<Rightarrow> pystr \<Rightarrow> path" where
  "enter p c =
     (if c = [] \<or> c = [46] then p
      else if c = [46, 46]
      then (if p = [] \<or> last p = [46, 46] then p @ [c] else if p = [[]] then p else butlast p)
      else p @ [c])"

definition os_path_join :: "path \<Rightarrow> pystr \<Rightarrow> path" where
  "os_path_join p s =
     foldl enter (case s of [] \<Rightarrow> p | c # cs \<Rightarrow> (if c = 47 then [[]] else p)) (split_slash s)"

text \<open>An effect on a state either completes or raises, and leaves a state in both cases.\<close>

datatype 's effect = Done 's | Raise exn 's

fun state_after :: "'s effect \<Rightarrow> 's" where
  "state_after (Done s) = s"
| "state_after (Raise e s) = s"

text \<open>The error of creating or removing an entry of the directory \<open>p\<close>, if any.\<close>

definition entry_error :: "filesys \<Rightarrow> path \<Rightarrow> exn option" where
  "entry_error d p =
     (case node_at d p of
        None \<Rightarrow> Some FileNotFoundError
      | Some (File b) \<Rightarrow> Some NotADirectoryError
      | Some Dir \<Rightarrow> (if p \<in> readonly d then Some PermissionError else None))"

definition os_mkdir :: "filesys \<Rightarrow> path \<Rightarrow> filesys effect" where
  "os_mkdir d p =
     (if os_path_exists d p then Raise FileExistsError d
      else case entry_error d (butlast p) of
             Some e \<Rightarrow> Raise e d
           | None \<Rightarrow> Done (d\<lparr>nodes := AList.update p Dir (nodes d)\<rparr>))"

text \<open>
  \<open>os.makedirs(name)\<close> creates the missing ancestors first, top down, and then the
  directory itself; the path is taken reversed so that the recursion is on its parent.
\<close>

fun makedirs_rev :: "filesys \<Rightarrow> path \<Rightarrow> filesys effect" where
  "makedirs_rev d [] = os_mkdir d []"
| "makedirs_rev d (tail # rhead) =
     (if rhead \<noteq> [] \<and> \<not> os_path_exists d (rev rhead)
      then (case makedirs_rev d rhead of
              Raise e d1 \<Rightarrow>
                (if e = FileExistsError then os_mkdir d1 (rev (tail # rhead)) else Raise e d1)
            | Done d1 \<Rightarrow> os_mkdir d1 (rev (tail # rhead)))
      else os_mkdir d (rev (tail # rhead)))"

definition os_makedirs :: "filesys \<Rightarrow> path \<Rightarrow> filesys effect" where
  "os_makedirs d p = makedirs_rev d (rev p)"


text \<open>
  \<open>os.listdir(p)\<close>: the names of the entries of the directory \<open>p\<close>, each once, in an order
  the caller cannot choose: the names are sorted by a rank that the platform assigns to
  them, and every order of the names is the order of some rank.
\<close>

definition os_listdir :: "(pystr \<Rightarrow> nat) \<Rightarrow> filesys \<Rightarrow> path \<Rightarrow> exn + pystr list" where
  "os_listdir rank d p =
     (case node_at d p of
        None \<Rightarrow> Inl FileNotFoundError
      | Some (File b) \<Rightarrow> Inl NotADirectoryError
      | Some Dir \<Rightarrow>
          Inr (sort_key rank (remdups (filter is_name (map (\<lambda>e. last (fst e))
                 (filter (\<lambda>e. fst e \<noteq> [] \<and> butlast (fst e) = p) (nodes d)))))))"

text \<open>\<open>os.remove(p)\<close> and \<open>os.unlink(p)\<close> delete a file.\<close>

definition os_remove :: "filesys \<Rightarrow> path \<Rightarrow> filesys effect" where
  "os_remove d p =
     (case node_at d p of
        None \<Rightarrow> Raise FileNotFoundError d
      | Some Dir \<Rightarrow> Raise IsADirectoryError d
      | Some (File b) \<Rightarrow>
          (case entry_error d (butlast p) of
             Some e \<Rightarrow> Raise e d
           | None \<Rightarrow> Done (d\<lparr>nodes := AList.delete p (nodes d)\<rparr>)))"

text \<open>
  \<open>os.rename(src, dst)\<close> on one volume. A file replaces a file of the destination name; a
  directory moves with everything below it, onto a free name or an empty directory.
\<close>

definition below :: "path \<Rightarrow> path \<Rightarrow> bool" where
  "below p q = (take (length p) q = p)"

definition rebase :: "path \<Rightarrow> path \<Rightarrow> path \<times> node \<Rightarrow> path \<times> node" where
  "rebase src dst e =
     (if below src (fst e) then (dst @ drop (length src) (fst e), snd e) else e)"

definition rename_file :: "filesys \<Rightarrow> path \<Rightarrow> path \<Rightarrow> nat list \<Rightarrow> filesys effect" where
  "rename_file d src dst b =
     (if os_path_isdir d dst then Raise IsADirectoryError d
      else Done (d\<lparr>nodes := AList.update dst (File b) (AList.delete src (nodes d))\<rparr>))"

definition rename_dir :: "filesys \<Rightarrow> path \<Rightarrow> path \<Rightarrow> filesys effect" where
  "rename_dir d src dst =
     (if os_path_isfile d dst then Raise NotADirectoryError d
      else if below src dst \<or> (\<exists>e \<in> set (nodes d). fst e \<noteq> dst \<and> below dst (fst e))
      then Raise OSError d
      else Done (d\<lparr>nodes := map (rebase src dst) (AList.delete dst (nodes d))\<rparr>))"

definition os_rename :: "filesys \<Rightarrow> path \<Rightarrow> path \<Rightarrow> filesys effect" where
  "os_rename d src dst =
     (case node_at d src of
        None \<Rightarrow> Raise FileNotFoundError d
      | Some n \<Rightarrow>
          (if src = [] \<or> dst = [] then Raise OSError d
           else (case entry_error d (butlast dst) of
                   Some e \<Rightarrow> Raise e d
                 | None \<Rightarrow>
                     (case entry_error d (butlast src) of
                        Some e \<Rightarrow> Raise e d
                      | None \<Rightarrow>
                          (if src = dst then Done d
                           else (case n of
                                   File b \<Rightarrow> rename_file d src dst b
                                 | Dir \<Rightarrow> rename_dir d src dst))))))"

text \<open>\<open>shutil.copy2(src, dst)\<close>: the bytes of a file, into a directory or onto a name.\<close>

definition shutil_copy2 :: "filesys \<Rightarrow> path \<Rightarrow> path \<Rightarrow> filesys effect" where
  "shutil_copy2 d src dst =
     (let to = (if os_path_isdir d dst then dst @ [basename src] else dst) in
      if src = to \<and> os_path_exists d src then Raise ShutilError d
      else case node_at d src of
        None \<Rightarrow> Raise FileNotFoundError d
      | Some Dir \<Rightarrow> Raise IsADirectoryError d
      | Some (File b) \<Rightarrow>
          (case node_at d to of
             Some Dir \<Rightarrow> Raise IsADirectoryError d
           | Some (File old) \<Rightarrow> Done (d\<lparr>nodes := AList.update to (File b) (nodes d)\<rparr>)
           | None \<Rightarrow>
               (case entry_error d (butlast to) of
                  Some e \<Rightarrow> Raise e d
                | None \<Rightarrow> Done (d\<lparr>nodes := AList.update to (File b) (nodes d)\<rparr>))))"

text \<open>
  \<open>shutil.move(src, dst)\<close>, after CPython: into \<open>dst\<close> when that is a directory; by
  \<open>os.rename\<close> when it works, otherwise by copying the file and unlinking the source. For a
  source that is a directory only the \<open>os.rename\<close> route is modelled: when it fails its
  error is reported and the tree copy that shutil would try is left out.
\<close>

definition shutil_move :: "filesys \<Rightarrow> path \<Rightarrow> path \<Rightarrow> filesys effect" where
  "shutil_move d src dst =
     (if os_path_isdir d dst \<and> src = dst then os_rename d src dst
      else if os_path_isdir d dst \<and> os_path_exists d (dst @ [basename src])
      then Raise ShutilError d
      else let real_dst = (if os_path_isdir d dst then dst @ [basename src] else dst) in
        case os_rename d src real_dst of
          Done d1 \<Rightarrow> Done d1
        | Raise e d1 \<Rightarrow>
            (if os_path_isdir d src then Raise e d1
             else case shutil_copy2 d1 src real_dst of
                    Raise e2 d2 \<Rightarrow> Raise e2 d2
                  | Done d2 \<Rightarrow> os_remove d2 src))"

text \<open>
  \<open>subprocess.call(argv)\<close> raises when the program cannot be started; otherwise the
  program runs, changes the disk as it likes and its exit code is returned.
\<close>

datatype call_outcome = Launch_failed | Exited int filesys

section \<open>The recorder, its surroundings and what it does to them\<close>

text \<open>\<open>class TwitchResponseStatus(enum.Enum)\<close>.\<close>

datatype TwitchResponseStatus = ONLINE | OFFLINE | NOT_FOUND | UNAUTHORIZED | ERROR

text \<open>
  An HTTP response as the recorder reads it: the status code and what \<open>r.json()\<close> gives
  (\<open>None\<close> when the body is not JSON, so that \<open>r.json()\<close> raises). A request either returns a
  response or raises a \<open>RequestException\<close>, whose \<open>response\<close> attribute may hold one.
\<close>

record response =
  status_code :: nat
  json_body :: "pyobject option"

datatype http_outcome = Returned response | Failed "response option"

text \<open>
  \<open>r.raise_for_status()\<close> raises for the codes 400 to 599. The truth value of a response
  object, which \<open>if e.response:\<close> tests, is its attribute \<open>ok\<close>: \<open>requests.Response.__bool__\<close>
  returns \<open>self.ok\<close>, and \<open>ok\<close> is true exactly when \<open>raise_for_status()\<close> does not raise.
\<close>

definition is_http_error :: "response \<Rightarrow> bool" where
  "is_http_error r = (400 \<le> status_code r \<and> status_code r < 600)"

definition response_bool :: "response \<Rightarrow> bool" where
  "response_bool r = (\<not> is_http_error r)"

text \<open>The request of \<open>check_user\<close>: its query parameter and its two headers.\<close>

record request =
  user_login :: pystr
  client_id_header :: pystr
  authorization :: pystr

text \<open>
  What the recorder does to the world, in the order it does it. Logging is not recorded.
  \<open>Thread_started\<close> is \<open>stream_check_thread.start()\<close>, and \<open>Swept\<close> is the call of line 156,
  where the startup sweep hands a raw file and its destination to \<open>process_recorded_file\<close>.
\<close>

datatype event =
    Api_get request
  | Token_post
  | Webhook_post pystr pystr nat
  | Slept nat
  | Streamlink_call pystr pystr path
  | Ffmpeg_call path path
  | Swept path path
  | Thread_started

text \<open>
  The fields of \<open>self\<close> that the methods read or write, then the world around it: the disk
  and the events so far.
\<close>

record recorder =
  disable_ffmpeg :: bool
  refresh :: nat
  root_path :: path
  username :: pystr
  quality :: pystr
  client_id :: pystr
  access_token :: pyobject
  stream_start_time :: "pystr option"

record state = recorder +
  disk :: filesys
  trace :: "event list"

definition emit :: "event \<Rightarrow> state \<Rightarrow> state" where
  "emit e s = s\<lparr>trace := trace s @ [e]\<rparr>"

definition on_disk :: "filesys effect \<Rightarrow> state \<Rightarrow> state effect" where
  "on_disk r s = (case r of Done d \<Rightarrow> Done (s\<lparr>disk := d\<rparr>) | Raise e d \<Rightarrow> Raise e (s\<lparr>disk := d\<rparr>))"

text \<open>
  What does not depend on the poll: the character database, the transcoder, a program
  that is given the disk, the input path and the output path, and the rank by which the
  operating system orders the names of a directory.
\<close>

record platform =
  alnum_table :: "nat \<Rightarrow> bool"
  ffmpeg :: "filesys \<Rightarrow> path \<Rightarrow> path \<Rightarrow> call_outcome"
  dir_rank :: "pystr \<Rightarrow> nat"

text \<open>
  What the world answers during one pass of the polling loop: the reply to the status
  request, the two clock readings (already formatted), the reply of the identity endpoint,
  whether the webhook request raises, and the capture tool.
\<close>

record tick =
  api_reply :: http_outcome
  utc_today :: pystr
  local_now :: pystr
  token_reply :: http_outcome
  webhook_raises :: "exn option"
  streamlink :: "filesys \<Rightarrow> path \<Rightarrow> call_outcome"

section \<open>The methods of \<open>TwitchRecorder\<close>\<close>

text \<open>
  \<open>fetch_access_token\<close>: post, \<open>raise_for_status()\<close>, \<open>token_response.json()\<close>, then
  \<open>token["access_token"]\<close>. Nothing is caught.
\<close>

definition fetch_access_token :: "tick \<Rightarrow> state \<Rightarrow> (exn + pyobject) \<times> state" where
  "fetch_access_token t s =
     (let s1 = emit Token_post s in
      case token_reply t of
        Failed e_response \<Rightarrow> (Inl RequestException, s1)
      | Returned r \<Rightarrow>
          (if is_http_error r then (Inl RequestException, s1)
           else (case json_body r of
                   None \<Rightarrow> (Inl RequestException, s1)
                 | Some token \<Rightarrow> (getitem token (ascii ''access_token''), s1))))"

text \<open>\<open>send_discord_message\<close> posts one embed; the request may raise, nothing is caught.\<close>

definition send_discord_message :: "tick \<Rightarrow> pystr \<Rightarrow> pystr \<Rightarrow> nat \<Rightarrow> state \<Rightarrow> state effect" where
  "send_discord_message t title description status_color s =
     (let s1 = emit (Webhook_post title description status_color) s in
      case webhook_raises t of None \<Rightarrow> Done s1 | Some e \<Rightarrow> Raise e s1)"

definition stream_link :: "state \<Rightarrow> pystr" where
  "stream_link s =
     ascii ''Stream for ['' @ username s @ ascii ''](https://twitch.tv/'' @ username s @ ascii '')''"

definition send_stream_start_notification :: "tick \<Rightarrow> state \<Rightarrow> state effect" where
  "send_stream_start_notification t s =
     send_discord_message t (ascii ''Stream Started'')
       (stream_link s @ ascii '' has started!'') 65280 s"

definition send_stream_stop_notification :: "tick \<Rightarrow> state \<Rightarrow> state effect" where
  "send_stream_stop_notification t s =
     send_discord_message t (ascii ''Stream Stopped'')
       (stream_link s @ ascii '' has stopped.'') 16711680 s"

definition send_stream_failure_notification :: "tick \<Rightarrow> pystr \<Rightarrow> state \<Rightarrow> state effect" where
  "send_stream_failure_notification t error_message s =
     send_discord_message t (ascii ''Stream Error'')
       (stream_link s @ ascii '' has encountered an error:'' @ [10] @ error_message) 16776960 s"

text \<open>
  \<open>check_user\<close>. \<open>except_status\<close> is the \<open>except\<close> clause: the status stays \<open>ERROR\<close> unless
  \<open>e.response\<close> is true, and then the two \<open>if\<close>s run one after the other. A \<open>KeyError\<close> or
  \<open>TypeError\<close> is not a \<open>RequestException\<close> and leaves the method.
\<close>

definition except_status :: "response option \<Rightarrow> TwitchResponseStatus" where
  "except_status e_response =
     (case e_response of
        None \<Rightarrow> ERROR
      | Some r \<Rightarrow>
          if response_bool r
          then (let status = (if status_code r = 401 then UNAUTHORIZED else ERROR)
                in if status_code r = 404 then NOT_FOUND else status)
          else ERROR)"

datatype checked = Status TwitchResponseStatus pyobject state | Check_raised exn state

text \<open>Lines 184 to 191, once \<open>r.json()\<close> has returned \<open>info\<close>.\<close>

definition classify :: "tick \<Rightarrow> pyobject \<Rightarrow> state \<Rightarrow> checked" where
  "classify t info s =
     (if info = PyNone then Status OFFLINE info s
      else (case getitem info (ascii ''data'') of
              Inl e \<Rightarrow> Check_raised e s
            | Inr data \<Rightarrow>
                (if \<not> truthy data then Status OFFLINE info s
                 else Status ONLINE info
                        (if stream_start_time s = None \<or> stream_start_time s = Some []
                         then s\<lparr>stream_start_time := Some (utc_today t)\<rparr> else s))))"

fun checked_state :: "checked \<Rightarrow> state" where
  "checked_state (Status status info s) = s"
| "checked_state (Check_raised e s) = s"

text \<open>Lines 181 and 182: the headers and the query of the status request.\<close>

definition status_request :: "state \<Rightarrow> exn + request" where
  "status_request s =
     (case concat_str (ascii ''Bearer '') (access_token s) [] of
        Inl e \<Rightarrow> Inl e
      | Inr bearer \<Rightarrow>
          Inr \<lparr>user_login = username s, client_id_header = client_id s,
               authorization = bearer\<rparr>)"

definition check_user :: "tick \<Rightarrow> state \<Rightarrow> checked" where
  "check_user t s =
     (case status_request s of
        Inl e \<Rightarrow> Check_raised e s
      | Inr req \<Rightarrow>
          (let s1 = emit (Api_get req) s in
           case api_reply t of
             Failed e_response \<Rightarrow> Status (except_status e_response) PyNone s1
           | Returned r \<Rightarrow>
               (if is_http_error r then Status (except_status (Some r)) PyNone s1
                else (case json_body r of
                        None \<Rightarrow> Status (except_status None) PyNone s1
                      | Some info \<Rightarrow> classify t info s1))))"

text \<open>
  \<open>ffmpeg_copy_and_fix_errors\<close>: the exit code of \<open>subprocess.call\<close> is not looked at, and
  \<open>except Exception\<close> catches what the call or \<open>os.remove\<close> raises.
\<close>

definition ffmpeg_copy_and_fix_errors :: "platform \<Rightarrow> path \<Rightarrow> path \<Rightarrow> state \<Rightarrow> state" where
  "ffmpeg_copy_and_fix_errors P recorded_filename processed_filename s =
     (let s1 = emit (Ffmpeg_call recorded_filename processed_filename) s in
      case ffmpeg P (disk s1) recorded_filename processed_filename of
        Launch_failed \<Rightarrow> s1
      | Exited code d1 \<Rightarrow>
          (case os_remove d1 recorded_filename of
             Done d2 \<Rightarrow> s1\<lparr>disk := d2\<rparr>
           | Raise e d2 \<Rightarrow> s1\<lparr>disk := d2\<rparr>))"

definition process_recorded_file :: "platform \<Rightarrow> path \<Rightarrow> path \<Rightarrow> state \<Rightarrow> state effect" where
  "process_recorded_file P recorded_filename processed_filename s =
     (if disable_ffmpeg s
      then on_disk (shutil_move (disk s) recorded_filename processed_filename) s
      else Done (ffmpeg_copy_and_fix_errors P recorded_filename processed_filename s))"

text \<open>
  \<open>process_recorded_files\<close>. \<open>process_each\<close> is its \<open>for\<close> loop over \<open>video_list\<close>; the
  \<open>try\<close> around the listing and the loop ends the sweep at the first exception.
\<close>

fun process_each :: "platform \<Rightarrow> path \<Rightarrow> path \<Rightarrow> pystr list \<Rightarrow> state \<Rightarrow> state effect" where
  "process_each P recorded_path processed_path [] s = Done s"
| "process_each P recorded_path processed_path (f # video_list) s =
     (let recorded_filename = os_path_join recorded_path f;
          processed_filename = os_path_join processed_path f in
      case process_recorded_file P recorded_filename processed_filename
             (emit (Swept recorded_filename processed_filename) s) of
        Raise e s1 \<Rightarrow> Raise e s1
      | Done s1 \<Rightarrow> process_each P recorded_path processed_path video_list s1)"



text \<open>
  Lines 139 and 141: \<open>os.path.join(self.root_path, "recorded", self.username)\<close> and the same
  with \<open>"processed"\<close>.
\<close>

definition recorded_dir :: "state \<Rightarrow> path" where
  "recorded_dir s = os_path_join (os_path_join (root_path s) (ascii ''recorded'')) (username s)"

definition processed_dir :: "state \<Rightarrow> path" where
  "processed_dir s = os_path_join (os_path_join (root_path s) (ascii ''processed'')) (username s)"

definition ensure_dir :: "path \<Rightarrow> state \<Rightarrow> state effect" where
  "ensure_dir p s = (if os_path_isdir (disk s) p then Done s else on_disk (os_makedirs (disk s) p) s)"

definition video_list_of :: "filesys \<Rightarrow> path \<Rightarrow> pystr list \<Rightarrow> pystr list" where
  "video_list_of d recorded_path names =
     filter (\<lambda>f. os_path_isfile d (os_path_join recorded_path f)) names"

text \<open>Lines 139 to 147: the two directories are made when they are not there.\<close>

definition prepare_dirs :: "state \<Rightarrow> state effect" where
  "prepare_dirs s =
     (case ensure_dir (recorded_dir s) s of
        Raise e s1 \<Rightarrow> Raise e s1
      | Done s1 \<Rightarrow> ensure_dir (processed_dir s) s1)"

text \<open>Lines 149 to 158: the listing and the loop, inside \<open>try\<close>.\<close>

definition sweep :: "platform \<Rightarrow> state \<Rightarrow> state" where
  "sweep P s =
     (case os_listdir (dir_rank P) (disk s) (recorded_dir s) of
        Inl e \<Rightarrow> s
      | Inr names \<Rightarrow>
          (case process_each P (recorded_dir s) (processed_dir s)
                  (video_list_of (disk s) (recorded_dir s) names) s of
             Raise e s1 \<Rightarrow> s1
           | Done s1 \<Rightarrow> s1))"

definition process_recorded_files :: "platform \<Rightarrow> state \<Rightarrow> state effect" where
  "process_recorded_files P s =
     (case prepare_dirs s of
        Raise e s1 \<Rightarrow> Raise e s1
      | Done s1 \<Rightarrow> Done (sweep P s1))"

section \<open>The polling loop\<close>

text \<open>
  One pass of \<open>while True\<close> in \<open>check_stream_continuously\<close> ends in one of three ways: the
  loop goes on, \<open>sys.exit()\<close> is called, or an exception that nothing catches leaves the
  method.
\<close>

datatype step = Continue state | Exit state | Uncaught exn state

definition error_restarting :: pystr where
  "error_restarting = ascii ''Unexpected error. Restarting script.''"

definition error_unauthorized :: pystr where
  "error_unauthorized = ascii ''Unauthorized, will attempt to log back in immediately''"

text \<open>
  Lines 112 and 113: \<open>channels = info["data"]\<close> and \<open>channel = next(iter(channels), None)\<close>.
\<close>

definition channel_of :: "pyobject \<Rightarrow> exn + pyobject" where
  "channel_of info =
     (case getitem info (ascii ''data'') of
        Inl e \<Rightarrow> Inl e
      | Inr channels \<Rightarrow> first_or_none channels)"

text \<open>Lines 114 to 118: the name of the capture file, from the title of \<open>channel\<close>.\<close>

definition filename_of_channel :: "platform \<Rightarrow> tick \<Rightarrow> state \<Rightarrow> pyobject \<Rightarrow> exn + pystr" where
  "filename_of_channel P t s channel =
     (case dict_get channel (ascii ''title'') of
        Inl e \<Rightarrow> Inl e
      | Inr title \<Rightarrow>
          (case concat_str (username s @ ascii '' - '' @ local_now t @ ascii '' - '')
                  title (ascii ''.mp4'') of
             Inl e \<Rightarrow> Inl e
           | Inr filename \<Rightarrow> Inr (clean_filename (alnum_table P) filename)))"

definition capture_filename :: "platform \<Rightarrow> tick \<Rightarrow> state \<Rightarrow> pyobject \<Rightarrow> exn + pystr" where
  "capture_filename P t s info =
     (case channel_of info of
        Inl e \<Rightarrow> Inl e
      | Inr channel \<Rightarrow> filename_of_channel P t s channel)"

text \<open>Lines 120 to 135: capture into the raw directory, hand the file over, sleep.\<close>

definition record_stream :: "platform \<Rightarrow> tick \<Rightarrow> pystr \<Rightarrow> state \<Rightarrow> step" where
  "record_stream P t filename s =
     (let recorded_filename = os_path_join (recorded_dir s) filename;
          processed_filename = os_path_join (processed_dir s) filename;
          s1 = emit (Streamlink_call (username s) (quality s) recorded_filename) s in
      case streamlink t (disk s1) recorded_filename of
        Launch_failed \<Rightarrow> Uncaught FileNotFoundError s1
      | Exited code d1 \<Rightarrow>
          (let s2 = s1\<lparr>disk := d1\<rparr> in
           if os_path_exists (disk s2) recorded_filename
           then (case process_recorded_file P recorded_filename processed_filename s2 of
                   Raise e s3 \<Rightarrow> Uncaught e s3
                 | Done s3 \<Rightarrow> Continue (emit (Slept (refresh s3)) s3))
           else Continue (emit (Slept (refresh s2)) s2)))"

text \<open>The notification that \<open>send_stream_failure_notification\<close> posts.\<close>

definition failure_post :: "state \<Rightarrow> pystr \<Rightarrow> event" where
  "failure_post s error_message =
     Webhook_post (ascii ''Stream Error'')
       (stream_link s @ ascii '' has encountered an error:'' @ [10] @ error_message) 16776960"

text \<open>The \<open>if\<close>/\<open>elif\<close> chain of lines 88 to 135, on the pair \<open>check_user\<close> returned.\<close>

definition react :: "platform \<Rightarrow> tick \<Rightarrow> TwitchResponseStatus \<Rightarrow> pyobject \<Rightarrow> state \<Rightarrow> step" where
  "react P t status info s =
     (case status of
        NOT_FOUND \<Rightarrow> Continue (emit (Slept (refresh s)) s)
      | ERROR \<Rightarrow>
          (case send_stream_failure_notification t error_restarting s of
             Raise e s1 \<Rightarrow> Uncaught e s1
           | Done s1 \<Rightarrow> Exit (emit (Slept 2) s1))
      | OFFLINE \<Rightarrow>
          (if stream_start_time s = None \<or> stream_start_time s = Some []
           then Continue (emit (Slept (refresh s)) s)
           else case send_stream_stop_notification t s of
                  Raise e s1 \<Rightarrow> Uncaught e s1
                | Done s1 \<Rightarrow>
                    Continue (emit (Slept (refresh s1)) (s1\<lparr>stream_start_time := None\<rparr>)))
      | UNAUTHORIZED \<Rightarrow>
          (case fetch_access_token t s of
             (Inl e, s1) \<Rightarrow> Uncaught e s1
           | (Inr token, s1) \<Rightarrow>
               (case send_stream_failure_notification t error_unauthorized
                       (s1\<lparr>access_token := token\<rparr>) of
                  Raise e s2 \<Rightarrow> Uncaught e s2
                | Done s2 \<Rightarrow> Continue s2))
      | ONLINE \<Rightarrow>
          (case send_stream_start_notification t s of
             Raise e s1 \<Rightarrow> Uncaught e s1
           | Done s1 \<Rightarrow>
               (case capture_filename P t s1 info of
                  Inl e \<Rightarrow> Uncaught e s1
                | Inr filename \<Rightarrow> record_stream P t filename s1)))"

definition poll_once :: "platform \<Rightarrow> tick \<Rightarrow> state \<Rightarrow> step" where
  "poll_once P t s =
     (case check_user t s of
        Check_raised e s1 \<Rightarrow> Uncaught e s1
      | Status status info s1 \<Rightarrow> react P t status info s1)"

text \<open>
  \<open>check_stream_continuously\<close> never returns by itself, so it is run against the answers
  of the world, one \<open>tick\<close> for each pass: when they are used up the loop is still polling.
  The loop is the target of a thread: \<open>sys.exit()\<close> raises \<open>SystemExit\<close> on that thread, and
  this, like any exception that nothing catches, ends that thread only.
\<close>

datatype running = Polling state | Exited_thread state | Crashed exn state

fun check_stream_continuously :: "platform \<Rightarrow> tick list \<Rightarrow> state \<Rightarrow> running" where
  "check_stream_continuously P [] s = Polling s"
| "check_stream_continuously P (t # ts) s =
     (case poll_once P t s of
        Continue s1 \<Rightarrow> check_stream_continuously P ts s1
      | Exit s1 \<Rightarrow> Exited_thread s1
      | Uncaught e s1 \<Rightarrow> Crashed e s1)"


text \<open>
  The two threads of the process together. The thread of the loop makes the passes
  \<open>early\<close> before the calling thread sweeps and the passes \<open>late\<close> after the sweep has ended,
  unless it has ended itself by then; a pass and the sweep are each taken as one step. The
  calling thread ends with the sweep, by return or by an exception. The process has
  terminated when both threads have ended.
\<close>

datatype process = Running state | Terminated state

fun process_state :: "process \<Rightarrow> state" where
  "process_state (Running s) = s"
| "process_state (Terminated s) = s"

fun terminated :: "process \<Rightarrow> bool" where
  "terminated (Running s) = False"
| "terminated (Terminated s) = True"

definition threads :: "platform \<Rightarrow> tick list \<Rightarrow> tick list \<Rightarrow> state \<Rightarrow> process" where
  "threads P early late s =
     (case check_stream_continuously P early (emit Thread_started s) of
        Polling s1 \<Rightarrow>
          (case check_stream_continuously P late (state_after (process_recorded_files P s1)) of
             Polling s2 \<Rightarrow> Running s2
           | Exited_thread s2 \<Rightarrow> Terminated s2
           | Crashed e s2 \<Rightarrow> Terminated s2)
      | Exited_thread s1 \<Rightarrow> Terminated (state_after (process_recorded_files P s1))
      | Crashed e s1 \<Rightarrow> Terminated (state_after (process_recorded_files P s1)))"

section \<open>A sample installation\<close>

text \<open>
  Concrete values on which the methods are evaluated: the root \<open>d\<close>, the channel \<open>bob\<close>,
  two captures left over in the raw directory and no processed directory yet.
\<close>

definition raw_bob :: path where
  "raw_bob = [ascii ''d'', ascii ''recorded'', ascii ''bob'']"

definition done_bob :: path where
  "done_bob = [ascii ''d'', ascii ''processed'', ascii ''bob'']"

definition sample_disk :: filesys where
  "sample_disk =
     \<lparr>nodes = [([ascii ''d''], Dir),
               ([ascii ''d'', ascii ''recorded''], Dir),
               (raw_bob, Dir),
               (raw_bob @ [ascii ''a.mp4''], File [1, 2, 3]),
               (raw_bob @ [ascii ''b.mp4''], File [4])],
      readonly = {}\<rparr>"

definition sample_state :: state where
  "sample_state =
     \<lparr>disable_ffmpeg = False, refresh = 15, root_path = [ascii ''d''],
      username = ascii ''bob'', quality = ascii ''best'', client_id = ascii ''id'',
      access_token = PyStr (ascii ''old''), stream_start_time = None,
      disk = sample_disk, trace = []\<rparr>"

text \<open>A transcoder that copies its input, and one that writes nothing and exits with 1.\<close>

definition copying_ffmpeg :: "filesys \<Rightarrow> path \<Rightarrow> path \<Rightarrow> call_outcome" where
  "copying_ffmpeg d i out =
     (case node_at d i of
        Some (File b) \<Rightarrow> Exited 0 (d\<lparr>nodes := AList.update out (File b) (nodes d)\<rparr>)
      | _ \<Rightarrow> Exited 1 d)"

definition failing_ffmpeg :: "filesys \<Rightarrow> path \<Rightarrow> path \<Rightarrow> call_outcome" where
  "failing_ffmpeg d i out = Exited 1 d"

definition sample_platform :: platform where
  "sample_platform =
     \<lparr>alnum_table = latin1_alnum, ffmpeg = copying_ffmpeg, dir_rank = (\<lambda>f. 0)\<rparr>"

definition reply_with :: "nat \<Rightarrow> pyobject option \<Rightarrow> http_outcome" where
  "reply_with code body = Returned \<lparr>status_code = code, json_body = body\<rparr>"

definition streams_of :: "pyobject list \<Rightarrow> pyobject" where
  "streams_of records = PyDict [(ascii ''data'', PyList records)]"

definition stream_titled :: "pystr \<Rightarrow> pyobject" where
  "stream_titled title = PyDict [(ascii ''id'', PyInt 7), (ascii ''title'', PyStr title)]"

definition sample_tick :: tick where
  "sample_tick =
     \<lparr>api_reply = reply_with 200 (Some (streams_of [])),
      utc_today = ascii ''20240102'',
      local_now = ascii ''240102 10h00m00s'',
      token_reply = reply_with 200 (Some (PyDict [(ascii ''access_token'', PyStr (ascii ''new''))])),
      webhook_raises = None,
      streamlink = (\<lambda>d out. Exited 0 (d\<lparr>nodes := AList.update out (File [9]) (nodes d)\<rparr>))\<rparr>"

text \<open>A poll during which two streams are reported, the first titled \<open>Foo: bar\<close>.\<close>

definition live_tick :: tick where
  "live_tick = sample_tick\<lparr>api_reply :=
      reply_with 200 (Some (streams_of [stream_titled (ascii ''Foo: bar''), stream_titled (ascii ''x'')]))\<rparr>"


text \<open>The same disk once both directories are there, with one capture left over.\<close>

definition ready_disk :: filesys where
  "ready_disk =
     \<lparr>nodes = [([ascii ''d''], Dir),
               ([ascii ''d'', ascii ''recorded''], Dir),
               (raw_bob, Dir),
               ([ascii ''d'', ascii ''processed''], Dir),
               (done_bob, Dir),
               (raw_bob @ [ascii ''a.mp4''], File [1, 2, 3])],
      readonly = {}\<rparr>"

text \<open>Processing switched off; in \<open>locked_state\<close> the processed directory is read-only.\<close>

definition moving_state :: state where
  "moving_state = sample_state\<lparr>disable_ffmpeg := True, disk := ready_disk\<rparr>"

definition locked_state :: state where
  "locked_state = sample_state\<lparr>disable_ffmpeg := True, disk := ready_disk\<lparr>readonly := {done_bob}\<rparr>\<rparr>"

text \<open>That disk after the capture has been transcoded and its raw file removed.\<close>

definition swept_disk :: filesys where
  "swept_disk =
     \<lparr>nodes = [([ascii ''d''], Dir),
               ([ascii ''d'', ascii ''recorded''], Dir),
               (raw_bob, Dir),
               ([ascii ''d'', ascii ''processed''], Dir),
               (done_bob, Dir),
               (done_bob @ [ascii ''a.mp4''], File [1, 2, 3])],
      readonly = {}\<rparr>"

text \<open>The status request and the notification of an unexpected error on the sample channel.\<close>

definition bob_request :: event where
  "bob_request = Api_get \<lparr>user_login = ascii ''bob'', client_id_header = ascii ''id'',
                          authorization = ascii ''Bearer old''\<rparr>"

definition bob_restart_post :: event where
  "bob_restart_post =
     Webhook_post (ascii ''Stream Error'')
       (ascii ''Stream for [bob](https://twitch.tv/bob) has encountered an error:'' @ [10] @
        ascii ''Unexpected error. Restarting script.'') 16776960"



text \<open>A poll during which neither the status request nor the webhook request can be sent.\<close>

definition cut_off_tick :: tick where
  "cut_off_tick = sample_tick\<lparr>api_reply := Failed None, webhook_raises := Some RequestException\<rparr>"

definition failing_platform :: platform where
  "failing_platform =
     \<lparr>alnum_table = latin1_alnum, ffmpeg = failing_ffmpeg, dir_rank = (\<lambda>f. 0)\<rparr>"

text \<open>A poll during which the status request cannot be sent.\<close>

definition down_tick :: tick where
  "down_tick = sample_tick\<lparr>api_reply := Failed None\<rparr>"

section \<open>Filename cleaning\<close>

lemma ascii_eq_iff [simp]: "ascii a = ascii b \<longleftrightarrow> a = b"
  by (simp add: ascii_def inj_def)

lemma clean_filename_idem: "clean_filename U (clean_filename U s) = clean_filename U s"
  by (simp add: clean_filename_def)

lemma clean_filename_kept:
  "set (clean_filename U s) \<subseteq> {c. isalnum U c \<or> c \<in> set kept_punctuation}"
  by (auto simp: clean_filename_def)

lemma ascii_kept_safe:
  assumes "c < 128" and "isalnum U c \<or> c \<in> set kept_punctuation"
  shows "safe_class c"
  using assms by (auto simp: isalnum_def safe_class_def kept_punctuation_def)

text \<open>
  Claim C5, as the code has it. Cleaning a filename twice is the same as cleaning it once,
  and every character that survives is one \<open>str.isalnum\<close> accepts or one of space, hyphen,
  underscore and dot. When the input is ASCII, or the character database accepts nothing
  beyond ASCII, the survivors lie in \<open>[A-Za-z0-9 _.-]\<close>.
\<close>

theorem clean_filename_idempotent_and_kept:
  "clean_filename U (clean_filename U s) = clean_filename U s \<and>
   set (clean_filename U s) \<subseteq> {c. isalnum U c \<or> c \<in> set kept_punctuation} \<and>
   ((\<forall>c \<in> set s. c < 128 \<or> \<not> U c) \<longrightarrow> (\<forall>c \<in> set (clean_filename U s). safe_class c))"
proof (intro conjI impI ballI)
  show "clean_filename U (clean_filename U s) = clean_filename U s"
    by (rule clean_filename_idem)
  show "set (clean_filename U s) \<subseteq> {c. isalnum U c \<or> c \<in> set kept_punctuation}"
    by (rule clean_filename_kept)
next
  fix c
  assume dom: "\<forall>c \<in> set s. c < 128 \<or> \<not> U c" and mem: "c \<in> set (clean_filename U s)"
  from mem have "c \<in> set s" and k: "isalnum U c \<or> c \<in> set kept_punctuation"
    by (auto simp: clean_filename_def)
  with dom have "c < 128 \<or> \<not> U c" by blast
  then show "safe_class c"
  proof
    assume "c < 128"
    then show ?thesis using k by (rule ascii_kept_safe)
  next
    assume "\<not> U c"
    with k show ?thesis
      by (auto simp: isalnum_def safe_class_def kept_punctuation_def split: if_splits)
  qed
qed

theorem clean_filename_idempotent_and_kept_witness:
  "clean_filename latin1_alnum (ascii ''a/b: c?.mp4'') = ascii ''ab c.mp4'' \<and>
   clean_filename latin1_alnum (ascii ''ab c.mp4'') = ascii ''ab c.mp4'' \<and>
   list_all safe_class (ascii ''ab c.mp4'')"
proof -
  have dom: "\<forall>c \<in> set (ascii ''a/b: c?.mp4''). c < 128 \<or> \<not> latin1_alnum c"
    by (simp add: ascii_def)
  have val: "clean_filename latin1_alnum (ascii ''a/b: c?.mp4'') = ascii ''ab c.mp4''"
    by (simp add: clean_filename_def ascii_def isalnum_def ascii_alnum_def kept_punctuation_def)
  from clean_filename_idempotent_and_kept [of latin1_alnum "ascii ''a/b: c?.mp4''"] dom
  have "clean_filename latin1_alnum (clean_filename latin1_alnum (ascii ''a/b: c?.mp4''))
          = clean_filename latin1_alnum (ascii ''a/b: c?.mp4'')"
    and "\<forall>c \<in> set (clean_filename latin1_alnum (ascii ''a/b: c?.mp4'')). safe_class c"
    by blast+
  with val show ?thesis by (simp add: list_all_iff)
qed

text \<open>
  Claim C5 as the specification words it fails: the title \<open>cafe\<close> written with an acute
  accent keeps its last letter (code point 233), which \<open>str.isalnum\<close> accepts and which is not in
  \<open>[A-Za-z0-9 _.-]\<close>.
\<close>

theorem clean_filename_not_ascii_only:
  "clean_filename latin1_alnum [99, 97, 102, 233] = [99, 97, 102, 233] \<and> \<not> safe_class 233"
  by (simp add: clean_filename_def isalnum_def ascii_alnum_def latin1_alnum_def
      kept_punctuation_def safe_class_def)

section \<open>The status classifier\<close>

lemma except_status_is_ERROR: "except_status e_response = ERROR"
  by (auto simp: except_status_def response_bool_def is_http_error_def split: option.splits)

lemma status_request_str:
  "access_token s = PyStr tok \<Longrightarrow>
   status_request s = Inr \<lparr>user_login = username s, client_id_header = client_id s,
                           authorization = ascii ''Bearer '' @ tok\<rparr>"
  by (simp add: status_request_def)

lemma check_user_statuses:
  "check_user t s = Status st info s' \<Longrightarrow> st = ONLINE \<or> st = OFFLINE \<or> st = ERROR"
  by (auto simp: check_user_def classify_def except_status_is_ERROR Let_def
      split: sum.splits http_outcome.splits if_splits option.splits)

text \<open>
  Claim C3 on the code. A reply with the code 401, and one with the code 404, make
  \<open>raise_for_status()\<close> raise an \<open>HTTPError\<close> that carries the response. That response is
  false in \<open>if e.response:\<close>, so neither comparison of the status code runs and \<open>check_user\<close>
  returns \<open>ERROR\<close>, whatever the body is. No exception reaches the caller.
\<close>

theorem check_user_401_404_give_ERROR:
  "check_user (t\<lparr>api_reply := reply_with 401 body\<rparr>) (s\<lparr>access_token := PyStr tok\<rparr>)
     = Status ERROR PyNone
         (emit (Api_get \<lparr>user_login = username s, client_id_header = client_id s,
                          authorization = ascii ''Bearer '' @ tok\<rparr>)
            (s\<lparr>access_token := PyStr tok\<rparr>)) \<and>
   check_user (t\<lparr>api_reply := reply_with 404 body\<rparr>) (s\<lparr>access_token := PyStr tok\<rparr>)
     = Status ERROR PyNone
         (emit (Api_get \<lparr>user_login = username s, client_id_header = client_id s,
                          authorization = ascii ''Bearer '' @ tok\<rparr>)
            (s\<lparr>access_token := PyStr tok\<rparr>))"
  by (simp add: check_user_def status_request_def reply_with_def is_http_error_def
      except_status_def response_bool_def)

text \<open>
  Claim C4. A reply that is not an HTTP error and whose JSON body has an empty \<open>data\<close>
  array makes \<open>check_user\<close> return \<open>OFFLINE\<close>, with the parsed body as \<open>info\<close>; no channel
  record comes with it: \<open>next(iter(info["data"]), None)\<close> is \<open>None\<close>. The recorder's own
  fields are unchanged and one status request has been sent.
\<close>

theorem check_user_empty_data:
  assumes "access_token s = PyStr tok"
    and "api_reply t = Returned r" and "\<not> is_http_error r"
    and "json_body r = Some (PyDict kvs)"
    and "map_of kvs (ascii ''data'') = Some (PyList [])"
  shows "check_user t s = Status OFFLINE (PyDict kvs)
           (emit (Api_get \<lparr>user_login = username s, client_id_header = client_id s,
                            authorization = ascii ''Bearer '' @ tok\<rparr>) s) \<and>
         channel_of (PyDict kvs) = Inr PyNone"
  using assms
  by (simp add: check_user_def status_request_def classify_def channel_of_def)

theorem check_user_empty_data_witness:
  "check_user sample_tick sample_state = Status OFFLINE (streams_of [])
     (emit (Api_get \<lparr>user_login = ascii ''bob'', client_id_header = ascii ''id'',
                      authorization = ascii ''Bearer old''\<rparr>) sample_state) \<and>
   channel_of (streams_of []) = Inr PyNone"
proof -
  have "check_user sample_tick sample_state = Status OFFLINE (PyDict [(ascii ''data'', PyList [])])
          (emit (Api_get \<lparr>user_login = username sample_state,
                           client_id_header = client_id sample_state,
                           authorization = ascii ''Bearer '' @ ascii ''old''\<rparr>) sample_state) \<and>
        channel_of (PyDict [(ascii ''data'', PyList [])]) = Inr PyNone"
    by (rule check_user_empty_data [where r = "\<lparr>status_code = 200, json_body = Some (streams_of [])\<rparr>"])
       (simp_all add: sample_tick_def sample_state_def reply_with_def streams_of_def
         is_http_error_def)
  then show ?thesis
    by (simp add: streams_of_def sample_state_def ascii_def)
qed

text \<open>
  Claim C7. A reply that is not an HTTP error and whose JSON body has a non-empty \<open>data\<close>
  array makes \<open>check_user\<close> return \<open>ONLINE\<close> with the parsed body, and notes the day the
  stream started if none is noted. The channel the loop takes from it is the first record
  of the array, and the capture filename is built from that record: when the record is a
  dict with a string \<open>title\<close>, the name is the channel, the local time and that title,
  cleaned.
\<close>

theorem check_user_first_record:
  assumes "access_token s = PyStr tok"
    and "api_reply t = Returned r" and "\<not> is_http_error r"
    and "json_body r = Some (PyDict kvs)"
    and "map_of kvs (ascii ''data'') = Some (PyList (c # cs))"
  shows "check_user t s = Status ONLINE (PyDict kvs)
           (let s1 = emit (Api_get \<lparr>user_login = username s, client_id_header = client_id s,
                                     authorization = ascii ''Bearer '' @ tok\<rparr>) s
            in if stream_start_time s = None \<or> stream_start_time s = Some []
               then s1\<lparr>stream_start_time := Some (utc_today t)\<rparr> else s1) \<and>
         channel_of (PyDict kvs) = Inr c \<and>
         capture_filename P t' s' (PyDict kvs) = filename_of_channel P t' s' c \<and>
         (\<forall>fields title. c = PyDict fields \<and> map_of fields (ascii ''title'') = Some (PyStr title) \<longrightarrow>
            capture_filename P t' s' (PyDict kvs) =
              Inr (clean_filename (alnum_table P)
                     (username s' @ ascii '' - '' @ local_now t' @ ascii '' - '' @ title @ ascii ''.mp4'')))"
  using assms
  by (simp add: check_user_def status_request_def classify_def channel_of_def
      capture_filename_def filename_of_channel_def emit_def Let_def)

theorem check_user_first_record_witness:
  "check_user live_tick sample_state =
     Status ONLINE (streams_of [stream_titled (ascii ''Foo: bar''), stream_titled (ascii ''x'')])
       ((emit (Api_get \<lparr>user_login = ascii ''bob'', client_id_header = ascii ''id'',
                        authorization = ascii ''Bearer old''\<rparr>) sample_state)
          \<lparr>stream_start_time := Some (ascii ''20240102'')\<rparr>) \<and>
   channel_of (streams_of [stream_titled (ascii ''Foo: bar''), stream_titled (ascii ''x'')])
     = Inr (stream_titled (ascii ''Foo: bar'')) \<and>
   capture_filename sample_platform live_tick sample_state
       (streams_of [stream_titled (ascii ''Foo: bar''), stream_titled (ascii ''x'')])
     = Inr (ascii ''bob - 240102 10h00m00s - Foo bar.mp4'')"
proof -
  let ?c = "stream_titled (ascii ''Foo: bar'')"
  let ?kvs = "[(ascii ''data'', PyList [?c, stream_titled (ascii ''x'')])]"
  let ?r = "\<lparr>status_code = 200, json_body = Some (PyDict ?kvs)\<rparr>"
  let ?req = "\<lparr>user_login = username sample_state, client_id_header = client_id sample_state,
               authorization = ascii ''Bearer '' @ ascii ''old''\<rparr>"
  have h: "access_token sample_state = PyStr (ascii ''old'')"
    "api_reply live_tick = Returned ?r" "\<not> is_http_error ?r"
    "json_body ?r = Some (PyDict ?kvs)"
    "map_of ?kvs (ascii ''data'') = Some (PyList (?c # [stream_titled (ascii ''x'')]))"
    by (simp_all add: sample_state_def live_tick_def sample_tick_def reply_with_def
        streams_of_def is_http_error_def)
  note T = check_user_first_record [OF h, of sample_platform live_tick sample_state]
  have clean: "clean_filename latin1_alnum (ascii ''bob - 240102 10h00m00s - Foo: bar.mp4'')
                 = ascii ''bob - 240102 10h00m00s - Foo bar.mp4''"
    by (simp add: clean_filename_def ascii_def isalnum_def ascii_alnum_def kept_punctuation_def)
  have name: "username sample_state @ ascii '' - '' @ local_now live_tick @ ascii '' - ''
                @ ascii ''Foo: bar'' @ ascii ''.mp4'' = ascii ''bob - 240102 10h00m00s - Foo: bar.mp4''"
    by (simp add: sample_state_def live_tick_def sample_tick_def ascii_def)
  have after: "(let s1 = emit (Api_get ?req) sample_state
                in if stream_start_time sample_state = None \<or> stream_start_time sample_state = Some []
                   then s1\<lparr>stream_start_time := Some (utc_today live_tick)\<rparr> else s1)
               = (emit (Api_get \<lparr>user_login = ascii ''bob'', client_id_header = ascii ''id'',
                                   authorization = ascii ''Bearer old''\<rparr>) sample_state)
                   \<lparr>stream_start_time := Some (ascii ''20240102'')\<rparr>"
    by (simp add: sample_state_def live_tick_def sample_tick_def ascii_def)
  from T have A: "check_user live_tick sample_state = Status ONLINE (PyDict ?kvs)
      ((emit (Api_get \<lparr>user_login = ascii ''bob'', client_id_header = ascii ''id'',
                        authorization = ascii ''Bearer old''\<rparr>) sample_state)
          \<lparr>stream_start_time := Some (ascii ''20240102'')\<rparr>)"
    unfolding after by (rule conjunct1)
  from T have B: "channel_of (PyDict ?kvs) = Inr ?c"
    by blast
  from T have "\<forall>fields title. ?c = PyDict fields \<and> map_of fields (ascii ''title'') = Some (PyStr title) \<longrightarrow>
            capture_filename sample_platform live_tick sample_state (PyDict ?kvs) =
              Inr (clean_filename (alnum_table sample_platform)
                     (username sample_state @ ascii '' - '' @ local_now live_tick @ ascii '' - '' @ title @ ascii ''.mp4''))"
    by blast
  then have "capture_filename sample_platform live_tick sample_state (PyDict ?kvs) =
              Inr (clean_filename (alnum_table sample_platform)
                     (username sample_state @ ascii '' - '' @ local_now live_tick @ ascii '' - ''
                        @ ascii ''Foo: bar'' @ ascii ''.mp4''))"
    by (simp add: stream_titled_def)
  then have C: "capture_filename sample_platform live_tick sample_state (PyDict ?kvs) =
              Inr (ascii ''bob - 240102 10h00m00s - Foo bar.mp4'')"
    unfolding name by (simp add: sample_platform_def clean)
  from A B C show ?thesis
    unfolding streams_of_def by blast
qed

text \<open>
  Claim C10. Whenever \<open>check_user\<close> returns a status other than \<open>ONLINE\<close> and \<open>OFFLINE\<close>,
  the \<open>info\<close> it returns with it is \<open>None\<close>: \<open>info\<close> is assigned after the last call that
  can raise a \<open>RequestException\<close>.
\<close>

theorem check_user_info_none:
  assumes "check_user t s = Status st info s'" and "st \<noteq> ONLINE" and "st \<noteq> OFFLINE"
  shows "info = PyNone"
  using assms
  by (auto simp: check_user_def classify_def Let_def
      split: sum.splits http_outcome.splits if_splits option.splits)

theorem check_user_info_none_witness:
  "check_user (sample_tick\<lparr>api_reply := Failed None\<rparr>) sample_state =
     Status ERROR PyNone
       (emit (Api_get \<lparr>user_login = ascii ''bob'', client_id_header = ascii ''id'',
                        authorization = ascii ''Bearer old''\<rparr>) sample_state)"
proof -
  obtain info s' where eq: "check_user (sample_tick\<lparr>api_reply := Failed None\<rparr>) sample_state =
      Status ERROR info s'"
    and s': "s' = emit (Api_get \<lparr>user_login = ascii ''bob'', client_id_header = ascii ''id'',
                        authorization = ascii ''Bearer old''\<rparr>) sample_state"
    by (simp add: check_user_def status_request_def except_status_def sample_state_def ascii_def)
  from check_user_info_none [OF eq] have "info = PyNone" by simp
  with eq s' show ?thesis by simp
qed

section \<open>Post-processing\<close>

lemma node_at_nodes:
  "node_at (d\<lparr>nodes := al\<rparr>) q = (if q = [] then Some Dir else map_of al q)"
  by (simp add: node_at_def)

lemmas node_at_simps = node_at_nodes update_conv' delete_conv'

lemma file_not_root: "node_at d p = Some (File b) \<Longrightarrow> p \<noteq> []"
  by (auto simp: node_at_def)

lemma entry_error_OSError: "entry_error d p = Some e \<Longrightarrow> is_OSError e"
  by (auto simp: entry_error_def is_OSError_def split: option.splits node.splits if_splits)

text \<open>The three library calls on a source that is a regular file.\<close>

lemma os_rename_file:
  assumes "node_at d src = Some (File b)" and "src \<noteq> dst" and "\<not> os_path_isdir d dst"
  shows "(\<exists>e. os_rename d src dst = Raise e d \<and> is_OSError e) \<or>
         os_rename d src dst =
           Done (d\<lparr>nodes := AList.update dst (File b) (AList.delete src (nodes d))\<rparr>)"
  using assms
  by (auto simp: os_rename_def rename_file_def is_OSError_def dest: entry_error_OSError
      split: option.splits)

lemma shutil_copy2_file:
  assumes "node_at d src = Some (File b)" and "src \<noteq> dst" and "\<not> os_path_isdir d dst"
  shows "(\<exists>e. shutil_copy2 d src dst = Raise e d \<and> is_OSError e) \<or>
         shutil_copy2 d src dst = Done (d\<lparr>nodes := AList.update dst (File b) (nodes d)\<rparr>)"
  using assms
  by (auto simp: shutil_copy2_def os_path_isdir_def dest: entry_error_OSError
      split: option.splits node.splits)

lemma os_remove_file:
  assumes "node_at d p = Some (File b)"
  shows "(\<exists>e. os_remove d p = Raise e d \<and> is_OSError e) \<or>
         os_remove d p = Done (d\<lparr>nodes := AList.delete p (nodes d)\<rparr>)"
  using assms
  by (auto simp: os_remove_def dest: entry_error_OSError split: option.splits)

lemma shutil_move_file:
  assumes src: "node_at d src = Some (File b)" and ne: "src \<noteq> dst"
    and nd: "\<not> os_path_isdir d dst"
  shows "case shutil_move d src dst of
           Done d' \<Rightarrow> node_at d' dst = Some (File b) \<and> node_at d' src = None \<and>
                      (\<forall>p. p = src \<or> p = dst \<or> node_at d' p = node_at d p)
         | Raise e d' \<Rightarrow> is_OSError e \<and> node_at d' src = Some (File b)"
proof -
  from src have s0: "src \<noteq> []" by (rule file_not_root)
  from nd have d0: "dst \<noteq> []" by (auto simp: os_path_isdir_def node_at_def)
  from src have nsd: "\<not> os_path_isdir d src" by (simp add: os_path_isdir_def)
  have mv: "shutil_move d src dst =
      (case os_rename d src dst of
         Done d1 \<Rightarrow> Done d1
       | Raise e d1 \<Rightarrow>
           (case shutil_copy2 d1 src dst of
              Raise e2 d2 \<Rightarrow> Raise e2 d2
            | Done d2 \<Rightarrow> os_remove d2 src))"
    using nd nsd by (simp add: shutil_move_def split: effect.splits)
  from os_rename_file [OF src ne nd] show ?thesis
  proof
    assume "os_rename d src dst =
           Done (d\<lparr>nodes := AList.update dst (File b) (AList.delete src (nodes d))\<rparr>)"
    then show ?thesis
      using s0 d0 ne by (simp add: mv node_at_simps) (simp add: node_at_def)
  next
    assume "\<exists>e. os_rename d src dst = Raise e d \<and> is_OSError e"
    then obtain e where r: "os_rename d src dst = Raise e d" by blast
    from shutil_copy2_file [OF src ne nd] show ?thesis
    proof
      assume "\<exists>e. shutil_copy2 d src dst = Raise e d \<and> is_OSError e"
      then show ?thesis using r src by (auto simp: mv)
    next
      let ?d2 = "d\<lparr>nodes := AList.update dst (File b) (nodes d)\<rparr>"
      assume c: "shutil_copy2 d src dst = Done ?d2"
      have src2: "node_at ?d2 src = Some (File b)"
        using src ne d0 s0 by (simp add: node_at_simps) (simp add: node_at_def)
      from os_remove_file [OF src2] show ?thesis
      proof
        assume "\<exists>e. os_remove ?d2 src = Raise e ?d2 \<and> is_OSError e"
        then show ?thesis using r c src2 by (auto simp: mv)
      next
        assume "os_remove ?d2 src = Done (?d2\<lparr>nodes := AList.delete src (nodes ?d2)\<rparr>)"
        then show ?thesis
          using r c s0 d0 ne by (simp add: mv node_at_simps) (simp add: node_at_def)
      qed
    qed
  qed
qed


lemma on_disk_trace: "trace (state_after (on_disk r s)) = trace s"
  by (cases r) (simp_all add: on_disk_def)

text \<open>
  Claim C8. With processing disabled, \<open>process_recorded_file\<close> on a raw path that holds a
  regular file and a different destination path that is not a directory is a move: when
  it completes, the destination holds the bytes the source held, the source is gone, and
  no other path and no event has changed; when it raises, the exception is an \<open>OSError\<close>
  (Python's \<open>IOError\<close>) and the source still holds its bytes.
\<close>

theorem process_recorded_file_moves:
  assumes "disable_ffmpeg s" and "node_at (disk s) raw = Some (File b)"
    and "raw \<noteq> dst" and "\<not> os_path_isdir (disk s) dst"
  shows "case process_recorded_file P raw dst s of
           Done s' \<Rightarrow>
             node_at (disk s') dst = Some (File b) \<and> node_at (disk s') raw = None \<and>
             (\<forall>p. p = raw \<or> p = dst \<or> node_at (disk s') p = node_at (disk s) p) \<and>
             trace s' = trace s
         | Raise e s' \<Rightarrow>
             is_OSError e \<and> node_at (disk s') raw = Some (File b) \<and> trace s' = trace s"
proof -
  from assms(1) have p: "process_recorded_file P raw dst s = on_disk (shutil_move (disk s) raw dst) s"
    by (simp add: process_recorded_file_def)
  from shutil_move_file [OF assms(2-4)] show ?thesis
    unfolding p by (cases "shutil_move (disk s) raw dst") (simp_all add: on_disk_def)
qed

theorem process_recorded_file_moves_witness:
  "node_at (disk (state_after (process_recorded_file sample_platform
       (raw_bob @ [ascii ''a.mp4'']) (done_bob @ [ascii ''a.mp4'']) moving_state)))
     (done_bob @ [ascii ''a.mp4'']) = Some (File [1, 2, 3]) \<and>
   node_at (disk (state_after (process_recorded_file sample_platform
       (raw_bob @ [ascii ''a.mp4'']) (done_bob @ [ascii ''a.mp4'']) moving_state)))
     (raw_bob @ [ascii ''a.mp4'']) = None \<and>
   process_recorded_file sample_platform
       (raw_bob @ [ascii ''a.mp4'']) (done_bob @ [ascii ''a.mp4'']) locked_state
     = Raise PermissionError locked_state \<and>
   node_at (disk locked_state) (raw_bob @ [ascii ''a.mp4'']) = Some (File [1, 2, 3])"
proof -
  let ?raw = "raw_bob @ [ascii ''a.mp4'']" and ?dst = "done_bob @ [ascii ''a.mp4'']"
  have h: "disable_ffmpeg moving_state" "node_at (disk moving_state) ?raw = Some (File [1, 2, 3])"
    "?raw \<noteq> ?dst" "\<not> os_path_isdir (disk moving_state) ?dst"
    by (simp_all add: moving_state_def sample_state_def ready_disk_def node_at_def
        os_path_isdir_def raw_bob_def done_bob_def)
  have ok: "\<exists>s'. process_recorded_file sample_platform ?raw ?dst moving_state = Done s'"
    by (simp add: process_recorded_file_def moving_state_def sample_state_def ready_disk_def
        shutil_move_def os_rename_def rename_file_def entry_error_def node_at_def
        os_path_isdir_def os_path_exists_def raw_bob_def done_bob_def on_disk_def)
  then obtain s' where d: "process_recorded_file sample_platform ?raw ?dst moving_state = Done s'" ..
  from process_recorded_file_moves [OF h, of sample_platform]
  have "node_at (disk s') ?dst = Some (File [1, 2, 3]) \<and> node_at (disk s') ?raw = None"
    by (simp add: d)
  then have first: "node_at (disk (state_after (process_recorded_file sample_platform ?raw ?dst moving_state)))
       ?dst = Some (File [1, 2, 3]) \<and>
     node_at (disk (state_after (process_recorded_file sample_platform ?raw ?dst moving_state)))
       ?raw = None"
    by (simp add: d)
  have locked: "process_recorded_file sample_platform ?raw ?dst locked_state
                  = Raise PermissionError locked_state"
    by (simp add: process_recorded_file_def locked_state_def sample_state_def ready_disk_def
        shutil_move_def shutil_copy2_def os_rename_def rename_file_def entry_error_def node_at_def
        os_path_isdir_def os_path_exists_def raw_bob_def done_bob_def on_disk_def)
  have kept: "node_at (disk locked_state) ?raw = Some (File [1, 2, 3])"
    by (simp add: locked_state_def sample_state_def ready_disk_def node_at_def raw_bob_def done_bob_def)
  from first locked kept show ?thesis by blast
qed

lemma ffmpeg_exit_code_ignored:
  "ffmpeg P (disk s) raw out = Exited code d1 \<Longrightarrow>
   ffmpeg_copy_and_fix_errors P raw out s =
     (emit (Ffmpeg_call raw out) s)\<lparr>disk := state_after (os_remove d1 raw)\<rparr>"
  by (cases "os_remove d1 raw") (simp_all add: ffmpeg_copy_and_fix_errors_def emit_def)

text \<open>
  Claim C1 on the code. The transcoder is started on the capture \<open>a.mp4\<close>, writes nothing
  and exits with the code 1. \<open>subprocess.call\<close> returns that code, nobody reads it, and
  \<open>os.remove\<close> runs: afterwards the raw file is gone and there is no destination file.
\<close>

theorem failed_transcode_still_removes_raw:
  "os_path_isfile (disk sample_state) (raw_bob @ [ascii ''a.mp4'']) \<and>
   process_recorded_file failing_platform
       (raw_bob @ [ascii ''a.mp4'']) (done_bob @ [ascii ''a.mp4'']) sample_state
     = Done (sample_state
         \<lparr>disk := \<lparr>nodes = [([ascii ''d''], Dir),
                             ([ascii ''d'', ascii ''recorded''], Dir),
                             (raw_bob, Dir),
                             (raw_bob @ [ascii ''b.mp4''], File [4])],
                    readonly = {}\<rparr>,
          trace := [Ffmpeg_call (raw_bob @ [ascii ''a.mp4'']) (done_bob @ [ascii ''a.mp4''])]\<rparr>)"
  by (simp add: process_recorded_file_def ffmpeg_copy_and_fix_errors_def failing_platform_def
      failing_ffmpeg_def sample_state_def sample_disk_def emit_def os_remove_def entry_error_def
      node_at_def os_path_isfile_def raw_bob_def done_bob_def)

section \<open>The startup sweep\<close>















lemma split_slash_name: "47 \<notin> set f \<Longrightarrow> split_slash f = [f]"
  by (induction f) auto

lemma os_path_join_name: "is_name f \<Longrightarrow> os_path_join p f = p @ [f]"
  by (cases f) (auto simp: os_path_join_def is_name_def split_slash_name enter_def)

lemma os_path_join_empty: "os_path_join p [] = p"
  by (simp add: os_path_join_def enter_def)











text \<open>
  With the default user name, the empty string, the raw directory is \<open>recorded\<close> itself; a
  user name that starts with a slash names a directory outside the root path.
\<close>

lemma recorded_dir_no_username:
  "username s = [] \<Longrightarrow> recorded_dir s = root_path s @ [ascii ''recorded'']"
  by (simp add: recorded_dir_def os_path_join_empty os_path_join_name is_name_def ascii_def)

lemma recorded_dir_absolute_username:
  "username s = 47 # ascii ''x'' \<Longrightarrow> recorded_dir s = [[], ascii ''x'']"
  by (simp add: recorded_dir_def os_path_join_def enter_def ascii_def)



lemma sample_names:
  "is_name (ascii ''recorded'')" "is_name (ascii ''processed'')" "is_name (ascii ''bob'')"
  "is_name (ascii ''a.mp4'')" "is_name (ascii ''b.mp4'')"
  by (simp_all add: is_name_def ascii_def)

lemma sample_dirs:
  "recorded_dir sample_state = raw_bob" "processed_dir sample_state = done_bob"
  by (simp_all add: recorded_dir_def processed_dir_def sample_state_def raw_bob_def done_bob_def
      os_path_join_name sample_names)

lemma sample_state_fields:
  "recorded_dir (sample_state\<lparr>disable_ffmpeg := b, disk := d, trace := tr\<rparr>) = raw_bob"
  "processed_dir (sample_state\<lparr>disable_ffmpeg := b, disk := d, trace := tr\<rparr>) = done_bob"
  using sample_dirs by (simp_all add: recorded_dir_def processed_dir_def)













end
